theory Spec2Isabelle
  imports Main
begin

section \<open>Basic types\<close>

text \<open>
  A Go byte slice and a Go string are both sequences of 8-bit bytes; a HOL
  \<open>char\<close> is an 8-bit byte, so both are modelled as \<open>string\<close>.
\<close>

type_synonym bytes = string

datatype error = ErrServerClosed | ErrNoRows | Err string

text \<open>
  A function of the source either returns or panics (nil dereference, index
  out of range). The panic is a value of the model.
\<close>

datatype 'a result = Panic string | Return 'a

section \<open>Certificate provider\<close>

text \<open>
  \<open>time.Time\<close> is a count of nanoseconds, \<open>time.Duration\<close> likewise;
  \<open>t.Add(d)\<close> is their sum.
\<close>

type_synonym Time = int

definition Hour :: int where
  "Hour = 3600 * 1000000000"

definition Time_Add :: "Time \<Rightarrow> int \<Rightarrow> Time" where
  "Time_Add t d = t + d"

datatype ecdsa_PrivateKey = PrivateKey nat

datatype x509_Certificate = X509 (NotBefore: Time) (NotAfter: Time)

datatype tls_Certificate = TLSCertificate (certPEMBlock: bytes) (keyPEMBlock: bytes)

text \<open>
  What \<open>generateTLSCert\<close> calls and does not define: the outcome of
  \<open>ecdsa.GenerateKey(elliptic.P256(), rand.Reader)\<close>, the clock, the two
  helpers \<open>GenerateX509Cert\<close> and \<open>GenerateX509PEMs\<close> and
  \<open>tls.X509KeyPair\<close>. They are parameters of the model; each may fail.
\<close>

record cert_env =
  ecdsa_GenerateKey :: "error + ecdsa_PrivateKey"
  time_Now :: Time
  GenerateX509Cert :: "Time \<Rightarrow> Time \<Rightarrow> error + x509_Certificate"
  GenerateX509PEMs :: "x509_Certificate \<Rightarrow> ecdsa_PrivateKey \<Rightarrow> error + (bytes \<times> bytes)"
  tls_X509KeyPair :: "bytes \<Rightarrow> bytes \<Rightarrow> error + tls_Certificate"

text \<open>The two package-level variables; \<open>None\<close> is the nil pointer.\<close>

record globals =
  globalCertificate :: "tls_Certificate option"
  globalPem :: string

definition init_globals :: globals where
  "init_globals = \<lparr>globalCertificate = None, globalPem = []\<rparr>"

definition generateTLSCert :: "cert_env \<Rightarrow> globals \<Rightarrow> globals \<times> error option" where
  "generateTLSCert env g =
     (if globalCertificate g \<noteq> None then (g, None)
      else
        (case ecdsa_GenerateKey env of
           Inl err \<Rightarrow> (g, Some err)
         | Inr priv \<Rightarrow>
             (let notBefore = time_Now env;
                  notAfter = Time_Add notBefore (365 * 24 * Hour)
              in (case GenerateX509Cert env notBefore notAfter of
                    Inl err \<Rightarrow> (g, Some err)
                  | Inr cert \<Rightarrow>
                      (case GenerateX509PEMs env cert priv of
                         Inl err \<Rightarrow> (g, Some err)
                       | Inr (certPem, keyPem) \<Rightarrow>
                           (case tls_X509KeyPair env certPem keyPem of
                              Inl err \<Rightarrow> (g, Some err)
                            | Inr finalCert \<Rightarrow>
                                (g\<lparr>globalCertificate := Some finalCert,
                                   globalPem := certPem\<rparr>, None)))))))"

definition PublicTLSCert :: "cert_env \<Rightarrow> globals \<Rightarrow> globals \<times> (error + string)" where
  "PublicTLSCert env g =
     (case generateTLSCert env g of
        (g', Some err) \<Rightarrow> (g', Inl err)
      | (g', None) \<Rightarrow> (g', Inr (globalPem g')))"

section \<open>Resource handlers\<close>

text \<open>
  The request as the handlers read it: \<open>r.URL.Query()\<close>, a map from a
  parameter name to the list of its values.
\<close>

record Request =
  Query :: "string \<rightharpoonup> string list"

text \<open>
  The response writer: the header map (\<open>Set\<close> replaces the values of a key
  by one value; the three keys the handlers use are in canonical form
  already), the bytes of the body written so far, and the error the
  connection answers a \<open>Write\<close> with, if any. A refused \<open>Write\<close>
  leaves the body as it was.
\<close>

record ResponseWriter =
  Header :: "string \<rightharpoonup> string list"
  body :: bytes
  Write_err :: "error option"

definition Header_Set :: "string \<Rightarrow> string \<Rightarrow> ResponseWriter \<Rightarrow> ResponseWriter" where
  "Header_Set k v w = w\<lparr>Header := (Header w)(k \<mapsto> [v])\<rparr>"

definition Write :: "bytes \<Rightarrow> ResponseWriter \<Rightarrow> ResponseWriter \<times> error option" where
  "Write p w =
     (case Write_err w of
        None \<Rightarrow> (w\<lparr>body := body w @ p\<rparr>, None)
      | Some err \<Rightarrow> (w, Some err))"

text \<open>
  \<open>db.QueryRow(`SELECT <column> FROM user_messages WHERE id = ?`, id).Scan(&dest)\<close>:
  the database is the function giving the outcome of that call, an error
  (no row, or any other) or the scanned bytes (empty for NULL).
\<close>

datatype column = image_payload | audio_payload

type_synonym sql_DB = "column \<Rightarrow> string \<Rightarrow> error + bytes"

text \<open>
  The collaborators of the handlers outside this package: the identicon
  generator and the MIME sniffer (each returns its value and its error, as
  in Go), the clock, \<open>Time.AddDate\<close> and \<open>Time.Format\<close>.
\<close>

record http_env =
  identicon_Generate :: "string \<Rightarrow> bytes \<times> error option"
  images_ImageMime :: "bytes \<Rightarrow> string \<times> error option"
  now :: Time
  AddDate :: "Time \<Rightarrow> int \<Rightarrow> int \<Rightarrow> int \<Rightarrow> Time"
  Format :: "Time \<Rightarrow> string \<Rightarrow> string"

definition http_TimeFormat :: string where
  "http_TimeFormat = ''Mon, 02 Jan 2006 15:04:05 GMT''"

text \<open>
  \<open>vs, ok := r.URL.Query()[key]\<close>: a missing key gives the nil slice and
  \<open>ok = false\<close>.
\<close>

definition Query_lookup :: "Request \<Rightarrow> string \<Rightarrow> string list \<times> bool" where
  "Query_lookup r key = (case Query r key of None \<Rightarrow> ([], False) | Some vs \<Rightarrow> (vs, True))"

text \<open>\<open>xs[0]\<close> panics on an empty slice.\<close>

definition index0 :: "'a list \<Rightarrow> 'a result" where
  "index0 xs = (case xs of [] \<Rightarrow> Panic ''index out of range [0] with length 0'' | x # _ \<Rightarrow> Return x)"

text \<open>
  Each handler returns the response writer as it leaves it and the lines it
  logged at error level.
\<close>

definition identiconHandler_ServeHTTP ::
  "http_env \<Rightarrow> ResponseWriter \<Rightarrow> Request \<Rightarrow> (ResponseWriter \<times> string list) result" where
  "identiconHandler_ServeHTTP env w r =
     (case Query_lookup r ''publicKey'' of (pks, ok) \<Rightarrow>
        if \<not> ok \<or> length pks = 0 then Return (w, [''no publicKey''])
        else
          (case index0 pks of
             Panic m \<Rightarrow> Panic m
           | Return pk \<Rightarrow>
               (case identicon_Generate env pk of (image', err) \<Rightarrow>
                  (let l1 = (if err \<noteq> None then [''could not generate identicon''] else []);
                       w1 = Header_Set ''Content-Type'' ''image/png'' w;
                       w2 = Header_Set ''Cache-Control'' ''max-age:290304000, public'' w1;
                       w3 = Header_Set ''Expires''
                              (Format env (AddDate env (now env) 60 0 0) http_TimeFormat) w2
                   in (case Write image' w3 of (w4, err') \<Rightarrow>
                         Return (w4, l1 @ (if err' \<noteq> None then [''failed to write image''] else [])))))))"

definition imageHandler_ServeHTTP ::
  "http_env \<Rightarrow> sql_DB \<Rightarrow> ResponseWriter \<Rightarrow> Request \<Rightarrow> (ResponseWriter \<times> string list) result" where
  "imageHandler_ServeHTTP env db w r =
     (case Query_lookup r ''messageId'' of (messageIDs, ok) \<Rightarrow>
        if \<not> ok \<or> length messageIDs = 0 then Return (w, [''no messageID''])
        else
          (case index0 messageIDs of
             Panic m \<Rightarrow> Panic m
           | Return messageID \<Rightarrow>
               (case db image_payload messageID of
                  Inl err \<Rightarrow> Return (w, [''failed to find image''])
                | Inr image' \<Rightarrow>
                    if length image' = 0 then Return (w, [''empty image''])
                    else
                      (case images_ImageMime env image' of (mime, err) \<Rightarrow>
                         (let l1 = (if err \<noteq> None then [''failed to get mime''] else []);
                              w1 = Header_Set ''Content-Type'' mime w;
                              w2 = Header_Set ''Cache-Control'' ''no-store'' w1
                          in (case Write image' w2 of (w3, err') \<Rightarrow>
                                Return (w3, l1 @ (if err' \<noteq> None then [''failed to write image''] else []))))))))"

definition audioHandler_ServeHTTP ::
  "sql_DB \<Rightarrow> ResponseWriter \<Rightarrow> Request \<Rightarrow> (ResponseWriter \<times> string list) result" where
  "audioHandler_ServeHTTP db w r =
     (case Query_lookup r ''messageId'' of (messageIDs, ok) \<Rightarrow>
        if \<not> ok \<or> length messageIDs = 0 then Return (w, [''no messageID''])
        else
          (case index0 messageIDs of
             Panic m \<Rightarrow> Panic m
           | Return messageID \<Rightarrow>
               (case db audio_payload messageID of
                  Inl err \<Rightarrow> Return (w, [''failed to find image''])
                | Inr audio \<Rightarrow>
                    if length audio = 0 then Return (w, [''empty audio''])
                    else
                      (let w1 = Header_Set ''Content-Type'' ''audio/aac'' w;
                           w2 = Header_Set ''Cache-Control'' ''no-store'' w1
                       in (case Write audio w2 of (w3, err') \<Rightarrow>
                             Return (w3, if err' \<noteq> None then [''failed to write audio''] else []))))))"

section \<open>Listener and lifecycle controller\<close>

text \<open>
  The handlers as \<open>Start\<close> registers them, and an \<open>http.Server\<close>: its
  routes and whether \<open>Shutdown\<close> has been called on it.
\<close>

datatype handler = imageHandler sql_DB | audioHandler sql_DB | identiconHandler

record http_Server =
  Handler :: "(string \<times> handler) list"
  inShutdown :: bool

text \<open>
  The \<open>Server\<close> struct. \<open>server\<close> is a pointer: an index into the heap of
  \<open>http.Server\<close> objects, \<open>None\<close> for nil. The logger is the \<open>logs\<close>
  field of the process state below.
\<close>

record Server =
  Port :: int
  run :: bool
  server :: "nat option"
  db :: sql_DB
  cert :: "tls_Certificate option"

definition NewServer :: "cert_env \<Rightarrow> globals \<Rightarrow> sql_DB \<Rightarrow> globals \<times> (error + Server)" where
  "NewServer env g d =
     (case generateTLSCert env g of
        (g', Some err) \<Rightarrow> (g', Inl err)
      | (g', None) \<Rightarrow>
          (g', Inr \<lparr>Port = 0, run = False, server = None, db = d, cert = globalCertificate g'\<rparr>))"

text \<open>
  The process around one \<open>Server\<close>: the heap of \<open>http.Server\<close> objects
  (a new one is allocated at the end), the goroutines started by
  \<open>go s.listenAndServe()\<close> that have not called \<open>tls.Listen\<close> yet (they
  hold no local state, so a counter), the goroutines blocked in
  \<open>Serve\<close> (each with the \<open>http.Server\<close> it serves and the port of its
  listener), and the lines logged at error level.
\<close>

record world =
  srv :: Server
  heap :: "http_Server list"
  pending :: nat
  serving :: "(nat \<times> int) list"
  logs :: "string list"

definition new_world :: "Server \<Rightarrow> world" where
  "new_world s = \<lparr>srv = s, heap = [], pending = 0, serving = [], logs = []\<rparr>"

text \<open>
  The operating system as \<open>tls.Listen("tcp", "localhost:<port>", cfg)\<close> sees
  it: which ports can be bound now, and the port handed out for port 0, if
  any. The address is formatted from the port and parsed back; the model
  passes the port. A listener is its bound port, what
  \<open>listener.Addr().(*net.TCPAddr).Port\<close> reads.
\<close>

record network =
  free :: "int \<Rightarrow> bool"
  ephemeral :: "int option"

definition tls_Listen :: "network \<Rightarrow> int \<Rightarrow> error + int" where
  "tls_Listen net port =
     (if port = 0 then
        (case ephemeral net of
           None \<Rightarrow> Inl (Err ''listen tcp: no free port'')
         | Some q \<Rightarrow> Inr q)
      else if free net port then Inr port
      else Inl (Err ''listen tcp: address already in use''))"

definition Start :: "world \<Rightarrow> world \<times> error option" where
  "Start w =
     (let s = srv w;
          handler = [(''/messages/images'', imageHandler (db s)),
                     (''/messages/audio'', audioHandler (db s)),
                     (''/messages/identicons'', identiconHandler)];
          h = length (heap w);
          w1 = w\<lparr>heap := heap w @ [\<lparr>Handler = handler, inShutdown = False\<rparr>],
                 srv := s\<lparr>server := Some h\<rparr>\<rparr>;
          w2 = w1\<lparr>pending := Suc (pending w1)\<rparr>
      in (w2, None))"

text \<open>
  \<open>srv.Shutdown(ctx)\<close> marks the \<open>http.Server\<close>; its error, if any, is the
  caller's parameter \<open>shutdown_err\<close>.
\<close>

definition Shutdown :: "nat \<Rightarrow> world \<Rightarrow> world" where
  "Shutdown h w =
     (if h < length (heap w)
      then w\<lparr>heap := (heap w)[h := (heap w ! h)\<lparr>inShutdown := True\<rparr>]\<rparr>
      else w)"

definition Stop :: "error option \<Rightarrow> world \<Rightarrow> world \<times> error option" where
  "Stop shutdown_err w =
     (case server (srv w) of
        Some h \<Rightarrow> (Shutdown h w, shutdown_err)
      | None \<Rightarrow> (w, None))"

definition ToForeground :: "world \<Rightarrow> world" where
  "ToForeground w =
     (if \<not> run (srv w) \<and> server (srv w) \<noteq> None then
        (case Start w of
           (w', Some err) \<Rightarrow>
             w'\<lparr>logs := logs w' @ [''server start failed during foreground transition'']\<rparr>
         | (w', None) \<Rightarrow> w')
      else w)"

definition ToBackground :: "error option \<Rightarrow> world \<Rightarrow> world" where
  "ToBackground shutdown_err w =
     (if run (srv w) then
        (case Stop shutdown_err w of
           (w', Some err) \<Rightarrow>
             w'\<lparr>logs := logs w' @ [''server stop failed during background transition'']\<rparr>
         | (w', None) \<Rightarrow> w')
      else w)"

text \<open>
  \<open>listenAndServe\<close> blocks in \<open>s.server.Serve(listener)\<close>, so it is two
  functions: from its start to that call, and from the return of that call
  to its end. The first ends the goroutine on a bind failure, and otherwise
  leaves it blocked in \<open>Serve\<close> on the \<open>http.Server\<close> that
  \<open>s.server\<close> points to at that moment. In the interleaving that
  follows each of the two runs as one step; the subsection after it takes
  the goroutine one statement at a time.
\<close>

definition listenAndServe_listen :: "network \<Rightarrow> world \<Rightarrow> world result" where
  "listenAndServe_listen net w =
     (case cert (srv w) of
        None \<Rightarrow> Panic ''nil pointer dereference''
      | Some c \<Rightarrow>
          (case tls_Listen net (Port (srv w)) of
             Inl err \<Rightarrow>
               (let w1 = w\<lparr>logs := logs w @ [''failed to start server, retrying'']\<rparr>;
                    w2 = w1\<lparr>srv := (srv w1)\<lparr>Port := 0\<rparr>\<rparr>
                in (case Start w2 of
                      (w3, Some err') \<Rightarrow>
                        Return (w3\<lparr>logs := logs w3 @ [''server start failed, giving up'']\<rparr>)
                    | (w3, None) \<Rightarrow> Return w3))
           | Inr listener \<Rightarrow>
               (let w1 = w\<lparr>srv := (srv w)\<lparr>Port := listener\<rparr>\<rparr>;
                    w2 = w1\<lparr>srv := (srv w1)\<lparr>run := True\<rparr>\<rparr>
                in (case server (srv w2) of
                      None \<Rightarrow> Panic ''nil pointer dereference''
                    | Some h \<Rightarrow> Return (w2\<lparr>serving := serving w2 @ [(h, listener)]\<rparr>)))))"

definition listenAndServe_served :: "error \<Rightarrow> world \<Rightarrow> world" where
  "listenAndServe_served err w =
     (if err \<noteq> ErrServerClosed then
        (let w1 = w\<lparr>logs := logs w @ [''server failed unexpectedly, restarting'']\<rparr>
         in (case Start w1 of
               (w2, Some err') \<Rightarrow> w2\<lparr>logs := logs w2 @ [''server start failed, giving up'']\<rparr>
             | (w2, None) \<Rightarrow> w2))
      else w\<lparr>srv := (srv w)\<lparr>run := False\<rparr>\<rparr>)"

subsection \<open>Interleaving\<close>

text \<open>
  What can happen next in the process: a call of one of the four exported
  methods, a pending goroutine running up to \<open>Serve\<close> against the network
  of that moment, or a \<open>Serve\<close> returning. \<open>Serve\<close> on an
  \<open>http.Server\<close> that was shut down returns \<open>ErrServerClosed\<close>;
  otherwise it returns the error of the failure. An event that is not
  enabled leaves the process as it is; a panic in a goroutine ends it.
\<close>

datatype event =
    Call_Start
  | Call_Stop "error option"
  | Call_ToForeground
  | Call_ToBackground "error option"
  | Go_listen network
  | Serve_returns nat error

definition Serve_err :: "world \<Rightarrow> nat \<Rightarrow> error \<Rightarrow> error" where
  "Serve_err w h e =
     (if h < length (heap w) \<and> inShutdown (heap w ! h) then ErrServerClosed else e)"

fun step :: "event \<Rightarrow> world \<Rightarrow> world result" where
  "step Call_Start w = Return (fst (Start w))"
| "step (Call_Stop e) w = Return (fst (Stop e w))"
| "step Call_ToForeground w = Return (ToForeground w)"
| "step (Call_ToBackground e) w = Return (ToBackground e w)"
| "step (Go_listen net) w =
     (if pending w = 0 then Return w
      else listenAndServe_listen net (w\<lparr>pending := pending w - 1\<rparr>))"
| "step (Serve_returns i e) w =
     (if i < length (serving w) then
        (case serving w ! i of (h, l) \<Rightarrow>
           Return (listenAndServe_served (Serve_err w h e)
                     (w\<lparr>serving := take i (serving w) @ drop (Suc i) (serving w)\<rparr>)))
      else Return w)"

fun exec :: "event list \<Rightarrow> world \<Rightarrow> world result" where
  "exec [] w = Return w"
| "exec (ev # evs) w = (case step ev w of Panic m \<Rightarrow> Panic m | Return w' \<Rightarrow> exec evs w')"

subsection \<open>The goroutine of \<open>listenAndServe\<close>, statement by statement\<close>

text \<open>
  The fields of the \<open>Server\<close> are read and written with no lock, so what
  the goroutines of \<open>listenAndServe\<close> do depends on how their statements
  interleave. Here a goroutine advances by one access to a shared field, or
  one call of \<open>tls.Listen\<close>, at a time, and its local state is the place
  where it stands:
  \<^item> \<open>At_Listen addr\<close>: \<open>cfg\<close> and \<open>addr\<close> are built from \<open>s.cert\<close> and
    \<open>s.Port\<close> (lines 183 to 186), \<open>tls.Listen\<close> is next (188);
  \<^item> \<open>At_reset\<close>: \<open>tls.Listen\<close> failed and the failure is logged (190),
    \<open>s.Port = 0\<close> is next (191);
  \<^item> \<open>At_restart\<close>: \<open>s.Start()\<close> is next (192 to 196);
  \<^item> \<open>At_Port listener\<close>: \<open>tls.Listen\<close> succeeded, the write of
    \<open>s.Port\<close> is next (199);
  \<^item> \<open>At_run listener\<close>: \<open>s.run = true\<close> is next (200);
  \<^item> \<open>At_Serve listener\<close>: the read of \<open>s.server\<close> and the call of
    \<open>Serve\<close> are next (201);
  \<^item> \<open>At_served err\<close>: \<open>Serve\<close> returned \<open>err\<close>, lines 202 to 211 are
    next.
  A goroutine that has not run yet is counted in \<open>pending\<close>, one blocked
  in \<open>Serve\<close> is in \<open>serving\<close>, as before. \<open>Start\<close> and the other
  exported methods stay one step each: they read \<open>run\<close> and \<open>server\<close> and
  call \<open>Start\<close> or \<open>Shutdown\<close>, and none of them touches \<open>Port\<close>.
  Reads see the last write (an interleaving of the accesses).
\<close>

datatype goroutine =
    At_Listen int
  | At_reset
  | At_restart
  | At_Port int
  | At_run int
  | At_Serve int
  | At_served error

record process =
  base :: world
  goroutines :: "goroutine list"

text \<open>Lines 183 to 186: the dereference of \<open>s.cert\<close> and the read of \<open>s.Port\<close>.\<close>

definition listenAndServe_addr :: "world \<Rightarrow> int result" where
  "listenAndServe_addr w =
     (case cert (srv w) of
        None \<Rightarrow> Panic ''nil pointer dereference''
      | Some c \<Rightarrow> Return (Port (srv w)))"

text \<open>Lines 188 to 190: \<open>tls.Listen\<close> on the address built before, and the log line.\<close>

definition listenAndServe_Listen :: "network \<Rightarrow> int \<Rightarrow> world \<Rightarrow> world \<times> goroutine" where
  "listenAndServe_Listen net addr w =
     (case tls_Listen net addr of
        Inl err \<Rightarrow> (w\<lparr>logs := logs w @ [''failed to start server, retrying'']\<rparr>, At_reset)
      | Inr listener \<Rightarrow> (w, At_Port listener))"

text \<open>
  The next statement of a goroutine: the state after it and where the
  goroutine stands then, \<open>None\<close> when it has ended or is blocked in
  \<open>Serve\<close>. A goroutine at \<open>At_Listen\<close> waits for \<open>tls.Listen\<close>.
\<close>

fun listenAndServe_next :: "goroutine \<Rightarrow> world \<Rightarrow> (world \<times> goroutine option) result" where
  "listenAndServe_next (At_Listen addr) w = Return (w, Some (At_Listen addr))"
| "listenAndServe_next At_reset w = Return (w\<lparr>srv := (srv w)\<lparr>Port := 0\<rparr>\<rparr>, Some At_restart)"
| "listenAndServe_next At_restart w =
     (case Start w of
        (w', Some err) \<Rightarrow>
          Return (w'\<lparr>logs := logs w' @ [''server start failed, giving up'']\<rparr>, None)
      | (w', None) \<Rightarrow> Return (w', None))"
| "listenAndServe_next (At_Port listener) w =
     Return (w\<lparr>srv := (srv w)\<lparr>Port := listener\<rparr>\<rparr>, Some (At_run listener))"
| "listenAndServe_next (At_run listener) w =
     Return (w\<lparr>srv := (srv w)\<lparr>run := True\<rparr>\<rparr>, Some (At_Serve listener))"
| "listenAndServe_next (At_Serve listener) w =
     (case server (srv w) of
        None \<Rightarrow> Panic ''nil pointer dereference''
      | Some h \<Rightarrow> Return (w\<lparr>serving := serving w @ [(h, listener)]\<rparr>, None))"
| "listenAndServe_next (At_served err) w = Return (listenAndServe_served err w, None)"

text \<open>
  The events of the process at this grain: the four exported methods, a
  pending goroutine building its address, goroutine \<open>i\<close> calling
  \<open>tls.Listen\<close> against the network of that moment, goroutine \<open>i\<close>
  running its next statement, and the \<open>Serve\<close> of the \<open>i\<close>-th serving
  goroutine returning. An event that is not enabled leaves the process as
  it is.
\<close>

datatype micro_event =
    M_Start
  | M_Stop "error option"
  | M_ToForeground
  | M_ToBackground "error option"
  | M_addr
  | M_Listen nat network
  | M_next nat
  | M_Serve_returns nat error

fun micro_step :: "micro_event \<Rightarrow> process \<Rightarrow> process result" where
  "micro_step M_Start p = Return (p\<lparr>base := fst (Start (base p))\<rparr>)"
| "micro_step (M_Stop e) p = Return (p\<lparr>base := fst (Stop e (base p))\<rparr>)"
| "micro_step M_ToForeground p = Return (p\<lparr>base := ToForeground (base p)\<rparr>)"
| "micro_step (M_ToBackground e) p = Return (p\<lparr>base := ToBackground e (base p)\<rparr>)"
| "micro_step M_addr p =
     (if pending (base p) = 0 then Return p
      else
        (case listenAndServe_addr (base p) of
           Panic m \<Rightarrow> Panic m
         | Return addr \<Rightarrow>
             Return (p\<lparr>base := (base p)\<lparr>pending := pending (base p) - 1\<rparr>,
                        goroutines := goroutines p @ [At_Listen addr]\<rparr>)))"
| "micro_step (M_Listen i net) p =
     (if i < length (goroutines p) then
        (case goroutines p ! i of
           At_Listen addr \<Rightarrow>
             (case listenAndServe_Listen net addr (base p) of (w', g') \<Rightarrow>
                Return (p\<lparr>base := w', goroutines := (goroutines p)[i := g']\<rparr>))
         | _ \<Rightarrow> Return p)
      else Return p)"
| "micro_step (M_next i) p =
     (if i < length (goroutines p) then
        (case listenAndServe_next (goroutines p ! i) (base p) of
           Panic m \<Rightarrow> Panic m
         | Return (w', Some g') \<Rightarrow>
             Return (p\<lparr>base := w', goroutines := (goroutines p)[i := g']\<rparr>)
         | Return (w', None) \<Rightarrow>
             Return (p\<lparr>base := w',
                        goroutines := take i (goroutines p) @ drop (Suc i) (goroutines p)\<rparr>))
      else Return p)"
| "micro_step (M_Serve_returns i e) p =
     (if i < length (serving (base p)) then
        (case serving (base p) ! i of (h, l) \<Rightarrow>
           Return (p\<lparr>base := (base p)
                            \<lparr>serving := take i (serving (base p)) @ drop (Suc i) (serving (base p))\<rparr>,
                      goroutines := goroutines p @ [At_served (Serve_err (base p) h e)]\<rparr>))
      else Return p)"

fun micro_exec :: "micro_event list \<Rightarrow> process \<Rightarrow> process result" where
  "micro_exec [] p = Return p"
| "micro_exec (ev # evs) p =
     (case micro_step ev p of Panic m \<Rightarrow> Panic m | Return p' \<Rightarrow> micro_exec evs p')"

text \<open>A process with no goroutine between two blocking points.\<close>

definition quiet :: "world \<Rightarrow> process" where
  "quiet w = \<lparr>base = w, goroutines = []\<rparr>"





section \<open>Observers\<close>

text \<open>What a call returned, if it did not panic.\<close>

definition returned :: "'a result \<Rightarrow> 'a option" where
  "returned res = (case res of Panic m \<Rightarrow> None | Return x \<Rightarrow> Some x)"

text \<open>The response writer a handler leaves behind, and one header of it.\<close>

definition writer_of :: "(ResponseWriter \<times> string list) result \<Rightarrow> ResponseWriter option" where
  "writer_of res = (case res of Panic m \<Rightarrow> None | Return (w, l) \<Rightarrow> Some w)"

definition response_header ::
  "string \<Rightarrow> (ResponseWriter \<times> string list) result \<Rightarrow> string list option" where
  "response_header k res = (case res of Panic m \<Rightarrow> None | Return (w, l) \<Rightarrow> Header w k)"

section \<open>Sample inputs\<close>

definition sample_cert_env :: cert_env where
  "sample_cert_env =
     \<lparr>ecdsa_GenerateKey = Inr (PrivateKey 7),
      time_Now = 1000,
      GenerateX509Cert = (\<lambda>notBefore notAfter. Inr (X509 notBefore notAfter)),
      GenerateX509PEMs = (\<lambda>c k. Inr (''CERT PEM'', ''KEY PEM'')),
      tls_X509KeyPair = (\<lambda>c k. Inr (TLSCertificate c k))\<rparr>"

definition failing_cert_env :: cert_env where
  "failing_cert_env =
     \<lparr>ecdsa_GenerateKey = Inl (Err ''no entropy''),
      time_Now = 2000,
      GenerateX509Cert = (\<lambda>notBefore notAfter. Inl (Err ''x509'')),
      GenerateX509PEMs = (\<lambda>c k. Inl (Err ''pem'')),
      tls_X509KeyPair = (\<lambda>c k. Inl (Err ''key pair''))\<rparr>"

definition sample_globals :: globals where
  "sample_globals =
     \<lparr>globalCertificate = Some (TLSCertificate ''CERT PEM'' ''KEY PEM''), globalPem = ''CERT PEM''\<rparr>"

definition sample_db :: sql_DB where
  "sample_db col messageID =
     (if messageID = ''m1'' then
        (case col of image_payload \<Rightarrow> Inr ''GIF89a'' | audio_payload \<Rightarrow> Inr ''AAC data'')
      else if messageID = ''m2'' then Inr []
      else Inl ErrNoRows)"

definition sample_http_env :: http_env where
  "sample_http_env =
     \<lparr>identicon_Generate =
        (\<lambda>pk. if pk = ''bad'' then ([], Some (Err ''png: encode failed''))
              else if pk = ''half'' then (''PN'', Some (Err ''png: short write''))
              else (''PNG of '' @ pk, None)),
      images_ImageMime =
        (\<lambda>b. if take 3 b = ''GIF'' then (''image/gif'', None)
             else ([], Some (Err ''image format not supported''))),
      now = 0,
      AddDate = (\<lambda>t years months days. t + years * 365 * 24 * Hour),
      Format = (\<lambda>t layout. ''Tue, 01 Jan 2030 00:00:00 GMT'')\<rparr>"

definition empty_writer :: ResponseWriter where
  "empty_writer = \<lparr>Header = Map.empty, body = [], Write_err = None\<rparr>"

definition request_with :: "string \<Rightarrow> string list \<Rightarrow> Request" where
  "request_with key vs = \<lparr>Query = [key \<mapsto> vs]\<rparr>"

definition empty_request :: Request where
  "empty_request = \<lparr>Query = Map.empty\<rparr>"

definition sample_server :: Server where
  "sample_server =
     \<lparr>Port = 0, run = False, server = None, db = sample_db,
      cert = Some (TLSCertificate ''CERT PEM'' ''KEY PEM'')\<rparr>"

definition sample_network :: "int list \<Rightarrow> int option \<Rightarrow> network" where
  "sample_network ports q = \<lparr>free = (\<lambda>p. p \<in> set ports), ephemeral = q\<rparr>"

definition sample_routes :: "(string \<times> handler) list" where
  "sample_routes =
     [(''/messages/images'', imageHandler sample_db),
      (''/messages/audio'', audioHandler sample_db),
      (''/messages/identicons'', identiconHandler)]"

text \<open>
  The sample server after \<open>Start\<close> and a bind of the ephemeral port 49152,
  and the same server after it went to the background, its \<open>Serve\<close>
  returned and it was brought to the foreground again (one goroutine about
  to bind).
\<close>

definition running_world :: world where
  "running_world =
     \<lparr>srv = \<lparr>Port = 49152, run = True, server = Some 0, db = sample_db,
              cert = Some (TLSCertificate ''CERT PEM'' ''KEY PEM'')\<rparr>,
      heap = [\<lparr>Handler = sample_routes, inShutdown = False\<rparr>],
      pending = 0,
      serving = [(0, 49152)],
      logs = []\<rparr>"

definition restarting_world :: world where
  "restarting_world =
     \<lparr>srv = \<lparr>Port = 49152, run = False, server = Some 1, db = sample_db,
              cert = Some (TLSCertificate ''CERT PEM'' ''KEY PEM'')\<rparr>,
      heap = [\<lparr>Handler = sample_routes, inShutdown = True\<rparr>,
              \<lparr>Handler = sample_routes, inShutdown = False\<rparr>],
      pending = 1,
      serving = [],
      logs = []\<rparr>"


section \<open>Lemmas about the certificate provider\<close>

lemma generateTLSCert_cached:
  "globalCertificate g \<noteq> None \<Longrightarrow> generateTLSCert env g = (g, None)"
  by (simp add: generateTLSCert_def)

lemma generateTLSCert_success_caches:
  "generateTLSCert env g = (g', None) \<Longrightarrow> globalCertificate g' \<noteq> None"
  by (auto simp: generateTLSCert_def Let_def split: if_splits sum.splits prod.splits)

lemma generateTLSCert_error_keeps:
  "generateTLSCert env g = (g', Some err) \<Longrightarrow> g' = g \<and> globalCertificate g = None"
  by (auto simp: generateTLSCert_def Let_def split: if_splits sum.splits prod.splits)

section \<open>Lemmas about the handlers\<close>

lemma Query_lookup_Some: "Query r k = Some vs \<Longrightarrow> Query_lookup r k = (vs, True)"
  by (simp add: Query_lookup_def)

lemma Query_lookup_None: "Query r k = None \<Longrightarrow> Query_lookup r k = ([], False)"
  by (simp add: Query_lookup_def)

lemma Write_result:
  "Write p w =
     (w\<lparr>body := (if Write_err w = None then body w @ p else body w)\<rparr>, Write_err w)"
  by (cases "Write_err w") (simp_all add: Write_def)

lemma audioHandler_found:
  assumes "Query r ''messageId'' = Some (messageID # rest)"
    and "d audio_payload messageID = Inr audio" and "audio \<noteq> []"
  shows "audioHandler_ServeHTTP d w r =
           Return (w\<lparr>Header := (Header w)(''Content-Type'' \<mapsto> [''audio/aac''],
                                           ''Cache-Control'' \<mapsto> [''no-store'']),
                      body := (if Write_err w = None then body w @ audio else body w)\<rparr>,
                   if Write_err w \<noteq> None then [''failed to write audio''] else [])"
  using assms
  by (simp add: audioHandler_ServeHTTP_def Query_lookup_Some index0_def Write_result
      Header_Set_def Let_def)

lemma audioHandler_not_found:
  assumes "Query r ''messageId'' = Some (messageID # rest)"
    and "d audio_payload messageID = Inl err"
  shows "audioHandler_ServeHTTP d w r = Return (w, [''failed to find image''])"
  using assms
  by (simp add: audioHandler_ServeHTTP_def Query_lookup_Some index0_def)

lemma audioHandler_empty:
  assumes "Query r ''messageId'' = Some (messageID # rest)"
    and "d audio_payload messageID = Inr []"
  shows "audioHandler_ServeHTTP d w r = Return (w, [''empty audio''])"
  using assms
  by (simp add: audioHandler_ServeHTTP_def Query_lookup_Some index0_def)

lemma audioHandler_no_param:
  assumes "Query r ''messageId'' = None \<or> Query r ''messageId'' = Some []"
  shows "audioHandler_ServeHTTP d w r = Return (w, [''no messageID''])"
  using assms
  by (auto simp: audioHandler_ServeHTTP_def Query_lookup_def)

lemma imageHandler_found:
  assumes "Query r ''messageId'' = Some (messageID # rest)"
    and "d image_payload messageID = Inr img" and "img \<noteq> []"
  shows "imageHandler_ServeHTTP env d w r =
           Return (w\<lparr>Header := (Header w)(''Content-Type'' \<mapsto> [fst (images_ImageMime env img)],
                                           ''Cache-Control'' \<mapsto> [''no-store'']),
                      body := (if Write_err w = None then body w @ img else body w)\<rparr>,
                   (if snd (images_ImageMime env img) \<noteq> None then [''failed to get mime''] else [])
                   @ (if Write_err w \<noteq> None then [''failed to write image''] else []))"
  using assms
  by (simp add: imageHandler_ServeHTTP_def Query_lookup_Some index0_def Write_result
      Header_Set_def Let_def split: prod.splits)

lemma imageHandler_not_found:
  assumes "Query r ''messageId'' = Some (messageID # rest)"
    and "d image_payload messageID = Inl err"
  shows "imageHandler_ServeHTTP env d w r = Return (w, [''failed to find image''])"
  using assms
  by (simp add: imageHandler_ServeHTTP_def Query_lookup_Some index0_def)

lemma imageHandler_empty:
  assumes "Query r ''messageId'' = Some (messageID # rest)"
    and "d image_payload messageID = Inr []"
  shows "imageHandler_ServeHTTP env d w r = Return (w, [''empty image''])"
  using assms
  by (simp add: imageHandler_ServeHTTP_def Query_lookup_Some index0_def)

lemma imageHandler_no_param:
  assumes "Query r ''messageId'' = None \<or> Query r ''messageId'' = Some []"
  shows "imageHandler_ServeHTTP env d w r = Return (w, [''no messageID''])"
  using assms
  by (auto simp: imageHandler_ServeHTTP_def Query_lookup_def)

lemma identiconHandler_no_param:
  assumes "Query r ''publicKey'' = None \<or> Query r ''publicKey'' = Some []"
  shows "identiconHandler_ServeHTTP env w r = Return (w, [''no publicKey''])"
  using assms
  by (auto simp: identiconHandler_ServeHTTP_def Query_lookup_def)

lemma identiconHandler_param:
  assumes "Query r ''publicKey'' = Some (pk # rest)"
  shows "identiconHandler_ServeHTTP env w r =
           Return (w\<lparr>Header := (Header w)
                        (''Content-Type'' \<mapsto> [''image/png''],
                         ''Cache-Control'' \<mapsto> [''max-age:290304000, public''],
                         ''Expires'' \<mapsto> [Format env (AddDate env (now env) 60 0 0) http_TimeFormat]),
                      body := (if Write_err w = None
                               then body w @ fst (identicon_Generate env pk) else body w)\<rparr>,
                   (if snd (identicon_Generate env pk) \<noteq> None
                    then [''could not generate identicon''] else [])
                   @ (if Write_err w \<noteq> None then [''failed to write image''] else []))"
  using assms
  by (simp add: identiconHandler_ServeHTTP_def Query_lookup_Some index0_def Write_result
      Header_Set_def Let_def split: prod.splits)

lemma identiconHandler_no_panic: "identiconHandler_ServeHTTP env w r \<noteq> Panic m"
  by (auto simp: identiconHandler_ServeHTTP_def Query_lookup_def index0_def Let_def
      split: option.splits prod.splits list.splits)

lemma imageHandler_no_panic: "imageHandler_ServeHTTP env d w r \<noteq> Panic m"
  by (auto simp: imageHandler_ServeHTTP_def Query_lookup_def index0_def Let_def
      split: option.splits prod.splits list.splits sum.splits)

lemma audioHandler_no_panic: "audioHandler_ServeHTTP d w r \<noteq> Panic m"
  by (auto simp: audioHandler_ServeHTTP_def Query_lookup_def index0_def Let_def
      split: option.splits prod.splits list.splits sum.splits)

section \<open>Lemmas about the lifecycle\<close>

lemma Start_result:
  "Start w =
     (w\<lparr>heap := heap w @
           [\<lparr>Handler = [(''/messages/images'', imageHandler (db (srv w))),
                        (''/messages/audio'', audioHandler (db (srv w))),
                        (''/messages/identicons'', identiconHandler)],
             inShutdown = False\<rparr>],
        srv := (srv w)\<lparr>server := Some (length (heap w))\<rparr>,
        pending := Suc (pending w)\<rparr>, None)"
  by (simp add: Start_def Let_def)

lemma Start_nil: "snd (Start w) = None"
  by (simp add: Start_result)


lemma Start_logs: "logs (fst (Start w)) = logs w"
  by (simp add: Start_result)


lemma ToForeground_eq:
  "ToForeground w = (if \<not> run (srv w) \<and> server (srv w) \<noteq> None then fst (Start w) else w)"
  by (simp add: ToForeground_def Start_result)



lemma served_eq:
  "listenAndServe_served err w =
     (if err \<noteq> ErrServerClosed
      then fst (Start (w\<lparr>logs := logs w @ [''server failed unexpectedly, restarting'']\<rparr>))
      else w\<lparr>srv := (srv w)\<lparr>run := False\<rparr>\<rparr>)"
  by (simp add: listenAndServe_served_def Start_result Let_def)


lemma listen_fail:
  assumes "cert (srv w) \<noteq> None" and "tls_Listen net (Port (srv w)) = Inl err"
  shows "listenAndServe_listen net w =
           Return (fst (Start (w\<lparr>logs := logs w @ [''failed to start server, retrying''],
                                  srv := (srv w)\<lparr>Port := 0\<rparr>\<rparr>)))"
  using assms by (auto simp: listenAndServe_listen_def Start_result Let_def)




lemma step_logs:
  assumes "step ev w = Return w'"
    and "m = ''server start failed, giving up'' \<or>
         m = ''server start failed during foreground transition''"
    and "m \<notin> set (logs w)"
  shows "m \<notin> set (logs w')"
proof (cases ev)
  case Call_Start
  with assms show ?thesis by (auto simp: Start_result)
next
  case (Call_Stop e)
  with assms show ?thesis by (auto simp: Stop_def Shutdown_def split: option.splits if_splits)
next
  case Call_ToForeground
  with assms show ?thesis by (auto simp: ToForeground_eq Start_result split: if_splits)
next
  case (Call_ToBackground e)
  with assms show ?thesis
    by (cases e) (auto simp: ToBackground_def Stop_def Shutdown_def split: option.splits if_splits)
next
  case (Go_listen net)
  with assms show ?thesis
    by (auto simp: listenAndServe_listen_def Start_result Let_def
        split: if_splits option.splits sum.splits)
next
  case (Serve_returns i e)
  with assms show ?thesis
    by (auto simp: served_eq Start_result split: if_splits prod.splits)
qed

lemma exec_logs:
  assumes "m = ''server start failed, giving up'' \<or>
           m = ''server start failed during foreground transition''"
  shows "exec evs w = Return w' \<Longrightarrow> m \<notin> set (logs w) \<Longrightarrow> m \<notin> set (logs w')"
proof (induction evs arbitrary: w)
  case Nil
  then show ?case by simp
next
  case (Cons ev evs)
  from Cons.prems(1) obtain w1 where s: "step ev w = Return w1" and e: "exec evs w1 = Return w'"
    by (auto split: result.splits)
  from step_logs [OF s assms Cons.prems(2)] Cons.IH [OF e] show ?case by simp
qed

lemma ToBackground_noop: "\<not> run (srv w) \<Longrightarrow> ToBackground e w = w"
  by (simp add: ToBackground_def)

lemma ToForeground_noop: "run (srv w) \<Longrightarrow> ToForeground w = w"
  by (simp add: ToForeground_def)

section \<open>Lemmas about the goroutine, statement by statement\<close>

text \<open>
  Run with nothing in between, the statements of one goroutine are the two
  functions \<open>listenAndServe_listen\<close> and \<open>listenAndServe_served\<close>.
\<close>

lemma listen_refines:
  assumes "0 < pending w"
  shows "micro_exec [M_addr, M_Listen 0 net, M_next 0, M_next 0, M_next 0] (quiet w) =
           (case step (Go_listen net) w of Panic m \<Rightarrow> Panic m | Return w' \<Rightarrow> Return (quiet w'))"
  using assms
  by (auto simp: quiet_def listenAndServe_addr_def listenAndServe_Listen_def
      listenAndServe_listen_def Start_result Let_def
      split: option.splits sum.splits)

lemma served_refines:
  "micro_exec [M_Serve_returns i e, M_next 0] (quiet w) =
     (case step (Serve_returns i e) w of Panic m \<Rightarrow> Panic m | Return w' \<Rightarrow> Return (quiet w'))"
  by (auto simp: quiet_def split: prod.splits)









section \<open>Claims about the certificate provider\<close>

text \<open>
  C3. Certificate generation is idempotent. In a state where the certificate
  exists, \<open>generateTLSCert\<close> returns nil and leaves the two package
  variables as they are, whatever the key generator, the clock and the
  encoders would have answered (they are not consulted), and
  \<open>PublicTLSCert\<close> returns the stored PEM. So after one successful call a
  second call, in any environment, keeps the state of the first and returns
  the same PEM bytes.
\<close>

theorem generateTLSCert_idempotent:
  "(globalCertificate g \<noteq> None \<longrightarrow>
      generateTLSCert env g = (g, None) \<and> PublicTLSCert env g = (g, Inr (globalPem g)))
   \<and> (generateTLSCert envA g = (gA, None) \<longrightarrow>
        globalCertificate gA \<noteq> None \<and> generateTLSCert envB gA = (gA, None))
   \<and> (PublicTLSCert envA g = (gA, Inr pem) \<longrightarrow> PublicTLSCert envB gA = (gA, Inr pem))"
proof (intro conjI impI)
  assume "globalCertificate g \<noteq> None"
  then show "generateTLSCert env g = (g, None)" by (rule generateTLSCert_cached)
  then show "PublicTLSCert env g = (g, Inr (globalPem g))" by (simp add: PublicTLSCert_def)
next
  assume a: "generateTLSCert envA g = (gA, None)"
  then show c: "globalCertificate gA \<noteq> None" by (rule generateTLSCert_success_caches)
  then show "generateTLSCert envB gA = (gA, None)" by (rule generateTLSCert_cached)
next
  assume a: "PublicTLSCert envA g = (gA, Inr pem)"
  then have b: "generateTLSCert envA g = (gA, None)" and p: "pem = globalPem gA"
    by (auto simp: PublicTLSCert_def split: prod.splits option.splits)
  from b have "globalCertificate gA \<noteq> None" by (rule generateTLSCert_success_caches)
  then have "generateTLSCert envB gA = (gA, None)" by (rule generateTLSCert_cached)
  with p show "PublicTLSCert envB gA = (gA, Inr pem)" by (simp add: PublicTLSCert_def)
qed

text \<open>
  The first call generates the sample certificate; the second call, made
  where every generator step would fail, returns the same PEM.
\<close>

theorem generateTLSCert_idempotent_witness:
  "PublicTLSCert sample_cert_env init_globals = (sample_globals, Inr ''CERT PEM'')
   \<and> PublicTLSCert failing_cert_env sample_globals = (sample_globals, Inr ''CERT PEM'')
   \<and> globalCertificate sample_globals \<noteq> None
   \<and> generateTLSCert failing_cert_env sample_globals = (sample_globals, None)"
proof -
  have h: "PublicTLSCert sample_cert_env init_globals = (sample_globals, Inr ''CERT PEM'')"
    by (simp add: PublicTLSCert_def generateTLSCert_def sample_cert_env_def init_globals_def
        sample_globals_def Let_def)
  have c: "globalCertificate sample_globals \<noteq> None"
    by (simp add: sample_globals_def)
  note A = generateTLSCert_idempotent
    [where g = init_globals and envA = sample_cert_env and gA = sample_globals
       and envB = failing_cert_env and pem = "''CERT PEM''"]
  note B = generateTLSCert_idempotent [where g = sample_globals and env = failing_cert_env]
  have a: "PublicTLSCert failing_cert_env sample_globals = (sample_globals, Inr ''CERT PEM'')"
    using A [THEN conjunct2, THEN conjunct2, THEN mp, OF h] .
  have b: "generateTLSCert failing_cert_env sample_globals = (sample_globals, None)"
    using B [THEN conjunct1, THEN mp, OF c, THEN conjunct1] .
  from h a c b show ?thesis by blast
qed

text \<open>
  C4. Every error of certificate generation is returned by \<open>NewServer\<close> to
  its caller, and then no \<open>Server\<close> is returned, so there is nothing to
  start: this holds for the error of \<open>generateTLSCert\<close> as a whole and
  for each of its four failing steps (key generation, certificate, PEM
  encoding, key pair). A \<open>Server\<close> is returned only when generation
  reported no error, and it then holds the certificate.
\<close>

theorem NewServer_propagates_cert_error:
  "(generateTLSCert env g = (g', Some err) \<longrightarrow> NewServer env g d = (g', Inl err))
   \<and> (globalCertificate g = None \<and> ecdsa_GenerateKey env = Inl err \<longrightarrow>
        NewServer env g d = (g, Inl err))
   \<and> (globalCertificate g = None \<and> ecdsa_GenerateKey env = Inr priv \<and>
        GenerateX509Cert env (time_Now env) (Time_Add (time_Now env) (365 * 24 * Hour)) = Inl err \<longrightarrow>
        NewServer env g d = (g, Inl err))
   \<and> (globalCertificate g = None \<and> ecdsa_GenerateKey env = Inr priv \<and>
        GenerateX509Cert env (time_Now env) (Time_Add (time_Now env) (365 * 24 * Hour)) = Inr c \<and>
        GenerateX509PEMs env c priv = Inl err \<longrightarrow>
        NewServer env g d = (g, Inl err))
   \<and> (globalCertificate g = None \<and> ecdsa_GenerateKey env = Inr priv \<and>
        GenerateX509Cert env (time_Now env) (Time_Add (time_Now env) (365 * 24 * Hour)) = Inr c \<and>
        GenerateX509PEMs env c priv = Inr (certPem, keyPem) \<and>
        tls_X509KeyPair env certPem keyPem = Inl err \<longrightarrow>
        NewServer env g d = (g, Inl err))
   \<and> (NewServer env g d = (g', Inr s) \<longrightarrow>
        generateTLSCert env g = (g', None) \<and> cert s = globalCertificate g' \<and> cert s \<noteq> None)"
proof (intro conjI impI)
  assume "generateTLSCert env g = (g', Some err)"
  then show "NewServer env g d = (g', Inl err)" by (simp add: NewServer_def)
next
  assume "globalCertificate g = None \<and> ecdsa_GenerateKey env = Inl err"
  then show "NewServer env g d = (g, Inl err)"
    by (simp add: NewServer_def generateTLSCert_def)
next
  assume "globalCertificate g = None \<and> ecdsa_GenerateKey env = Inr priv \<and>
    GenerateX509Cert env (time_Now env) (Time_Add (time_Now env) (365 * 24 * Hour)) = Inl err"
  then show "NewServer env g d = (g, Inl err)"
    by (simp add: NewServer_def generateTLSCert_def Let_def)
next
  assume "globalCertificate g = None \<and> ecdsa_GenerateKey env = Inr priv \<and>
    GenerateX509Cert env (time_Now env) (Time_Add (time_Now env) (365 * 24 * Hour)) = Inr c \<and>
    GenerateX509PEMs env c priv = Inl err"
  then show "NewServer env g d = (g, Inl err)"
    by (simp add: NewServer_def generateTLSCert_def Let_def)
next
  assume "globalCertificate g = None \<and> ecdsa_GenerateKey env = Inr priv \<and>
    GenerateX509Cert env (time_Now env) (Time_Add (time_Now env) (365 * 24 * Hour)) = Inr c \<and>
    GenerateX509PEMs env c priv = Inr (certPem, keyPem) \<and>
    tls_X509KeyPair env certPem keyPem = Inl err"
  then show "NewServer env g d = (g, Inl err)"
    by (simp add: NewServer_def generateTLSCert_def Let_def)
next
  assume n: "NewServer env g d = (g', Inr s)"
  then show r: "generateTLSCert env g = (g', None)"
    by (auto simp: NewServer_def split: prod.splits option.splits)
  from n show e: "cert s = globalCertificate g'"
    by (auto simp: NewServer_def split: prod.splits option.splits)
  from r have "globalCertificate g' \<noteq> None" by (rule generateTLSCert_success_caches)
  with e show "cert s \<noteq> None" by simp
qed

text \<open>
  With no entropy for the key, the caller gets that error and no server;
  with the sample environment it gets the sample server, certificate set.
\<close>

theorem NewServer_propagates_cert_error_witness:
  "NewServer failing_cert_env init_globals sample_db = (init_globals, Inl (Err ''no entropy''))
   \<and> NewServer sample_cert_env init_globals sample_db = (sample_globals, Inr sample_server)
   \<and> cert sample_server \<noteq> None"
proof -
  have h: "globalCertificate init_globals = None
           \<and> ecdsa_GenerateKey failing_cert_env = Inl (Err ''no entropy'')"
    by (simp add: init_globals_def failing_cert_env_def)
  have a: "NewServer failing_cert_env init_globals sample_db
             = (init_globals, Inl (Err ''no entropy''))"
    using NewServer_propagates_cert_error
      [where g = init_globals and env = failing_cert_env and err = "Err ''no entropy''"
         and d = sample_db, THEN conjunct2, THEN conjunct1, THEN mp, OF h] .
  have n: "NewServer sample_cert_env init_globals sample_db = (sample_globals, Inr sample_server)"
    by (simp add: NewServer_def generateTLSCert_def sample_cert_env_def init_globals_def
        sample_globals_def sample_server_def Let_def)
  have c: "cert sample_server \<noteq> None"
    using NewServer_propagates_cert_error
      [where g = init_globals and env = sample_cert_env and d = sample_db
         and g' = sample_globals and s = sample_server,
       THEN conjunct2, THEN conjunct2, THEN conjunct2, THEN conjunct2, THEN conjunct2,
       THEN mp, OF n]
    by blast
  from a n c show ?thesis by blast
qed

section \<open>Claims about the resource handlers\<close>

text \<open>
  C5, as stated, fails: a response of \<open>/messages/audio\<close> need not carry
  \<open>Content-Type: audio/aac\<close>. When the stored payload is empty, when no
  row is found and when \<open>messageId\<close> is missing, the handler returns before
  it sets any header.
\<close>

theorem audio_headers_counterexample:
  "audioHandler_ServeHTTP sample_db empty_writer (request_with ''messageId'' [''m2''])
     = Return (empty_writer, [''empty audio''])
   \<and> response_header ''Content-Type''
        (audioHandler_ServeHTTP sample_db empty_writer (request_with ''messageId'' [''m2''])) = None
   \<and> response_header ''Content-Type''
        (audioHandler_ServeHTTP sample_db empty_writer (request_with ''messageId'' [''m9''])) = None
   \<and> response_header ''Content-Type''
        (audioHandler_ServeHTTP sample_db empty_writer empty_request) = None
   \<and> response_header ''Cache-Control''
        (audioHandler_ServeHTTP sample_db empty_writer empty_request) = None"
  by (simp add: audioHandler_ServeHTTP_def Query_lookup_def index0_def sample_db_def
      empty_writer_def request_with_def empty_request_def response_header_def)

text \<open>
  C5, amended. Every response of \<open>/messages/audio\<close> that serves a stored,
  non-empty payload carries \<open>Content-Type: audio/aac\<close> and
  \<open>Cache-Control: no-store\<close>, whatever the bytes of the payload are (the
  type is fixed, not sniffed), and the payload is what is written. When the
  lookup fails or the stored payload is empty, and when \<open>messageId\<close> is
  missing, the handler sets no header and writes nothing.
\<close>

theorem audioHandler_fixed_content_type:
  "(Query r ''messageId'' = Some (messageID # rest) \<and> d audio_payload messageID = Inr audio
      \<and> audio \<noteq> [] \<longrightarrow>
      response_header ''Content-Type'' (audioHandler_ServeHTTP d w r) = Some [''audio/aac'']
      \<and> response_header ''Cache-Control'' (audioHandler_ServeHTTP d w r) = Some [''no-store'']
      \<and> audioHandler_ServeHTTP d w r =
          Return (w\<lparr>Header := (Header w)(''Content-Type'' \<mapsto> [''audio/aac''],
                                          ''Cache-Control'' \<mapsto> [''no-store'']),
                     body := (if Write_err w = None then body w @ audio else body w)\<rparr>,
                  if Write_err w \<noteq> None then [''failed to write audio''] else []))
   \<and> (Query r ''messageId'' = Some (messageID # rest)
        \<and> (d audio_payload messageID = Inl err \<or> d audio_payload messageID = Inr []) \<longrightarrow>
        writer_of (audioHandler_ServeHTTP d w r) = Some w)
   \<and> (Query r ''messageId'' = None \<or> Query r ''messageId'' = Some [] \<longrightarrow>
        writer_of (audioHandler_ServeHTTP d w r) = Some w)"
proof (intro conjI impI)
  assume a: "Query r ''messageId'' = Some (messageID # rest)
             \<and> d audio_payload messageID = Inr audio \<and> audio \<noteq> []"
  then have e: "audioHandler_ServeHTTP d w r =
          Return (w\<lparr>Header := (Header w)(''Content-Type'' \<mapsto> [''audio/aac''],
                                          ''Cache-Control'' \<mapsto> [''no-store'']),
                     body := (if Write_err w = None then body w @ audio else body w)\<rparr>,
                  if Write_err w \<noteq> None then [''failed to write audio''] else [])"
    by (simp add: audioHandler_found)
  then show "audioHandler_ServeHTTP d w r =
          Return (w\<lparr>Header := (Header w)(''Content-Type'' \<mapsto> [''audio/aac''],
                                          ''Cache-Control'' \<mapsto> [''no-store'']),
                     body := (if Write_err w = None then body w @ audio else body w)\<rparr>,
                  if Write_err w \<noteq> None then [''failed to write audio''] else [])" .
  from e show "response_header ''Content-Type'' (audioHandler_ServeHTTP d w r) = Some [''audio/aac'']"
    by (simp add: response_header_def)
  from e show "response_header ''Cache-Control'' (audioHandler_ServeHTTP d w r) = Some [''no-store'']"
    by (simp add: response_header_def)
next
  assume "Query r ''messageId'' = Some (messageID # rest)
          \<and> (d audio_payload messageID = Inl err \<or> d audio_payload messageID = Inr [])"
  then show "writer_of (audioHandler_ServeHTTP d w r) = Some w"
    by (auto simp: audioHandler_not_found audioHandler_empty writer_of_def)
next
  assume "Query r ''messageId'' = None \<or> Query r ''messageId'' = Some []"
  then show "writer_of (audioHandler_ServeHTTP d w r) = Some w"
    by (simp add: audioHandler_no_param writer_of_def)
qed

text \<open>The stored audio of message \<open>m1\<close> is served with the two headers.\<close>

theorem audioHandler_fixed_content_type_witness:
  "response_header ''Content-Type''
     (audioHandler_ServeHTTP sample_db empty_writer (request_with ''messageId'' [''m1'']))
     = Some [''audio/aac'']
   \<and> response_header ''Cache-Control''
     (audioHandler_ServeHTTP sample_db empty_writer (request_with ''messageId'' [''m1'']))
     = Some [''no-store'']
   \<and> writer_of (audioHandler_ServeHTTP sample_db empty_writer (request_with ''messageId'' [''m2'']))
     = Some empty_writer
   \<and> writer_of (audioHandler_ServeHTTP sample_db empty_writer empty_request) = Some empty_writer"
proof -
  have h1: "Query (request_with ''messageId'' [''m1'']) ''messageId'' = Some (''m1'' # [])
            \<and> sample_db audio_payload ''m1'' = Inr ''AAC data'' \<and> ''AAC data'' \<noteq> []"
    by (simp add: request_with_def sample_db_def)
  have h2: "Query (request_with ''messageId'' [''m2'']) ''messageId'' = Some (''m2'' # [])
            \<and> (sample_db audio_payload ''m2'' = Inl ErrNoRows \<or> sample_db audio_payload ''m2'' = Inr [])"
    by (simp add: request_with_def sample_db_def)
  have h3: "Query empty_request ''messageId'' = None \<or> Query empty_request ''messageId'' = Some []"
    by (simp add: empty_request_def)
  note A = audioHandler_fixed_content_type
    [where r = "request_with ''messageId'' [''m1'']" and messageID = "''m1''" and rest = "[]"
       and d = sample_db and audio = "''AAC data''" and w = empty_writer,
     THEN conjunct1, THEN mp, OF h1]
  note B = audioHandler_fixed_content_type
    [where r = "request_with ''messageId'' [''m2'']" and messageID = "''m2''" and rest = "[]"
       and d = sample_db and err = ErrNoRows and w = empty_writer,
     THEN conjunct2, THEN conjunct1, THEN mp, OF h2]
  note C = audioHandler_fixed_content_type
    [where r = empty_request and d = sample_db and w = empty_writer,
     THEN conjunct2, THEN conjunct2, THEN mp, OF h3]
  from A B C show ?thesis by blast
qed

text \<open>
  C6. For a request to \<open>/messages/images\<close> with a \<open>messageId\<close>: when the
  lookup fails (no row) or the stored payload is empty, the handler leaves
  the response as it found it, no header and no body. Otherwise it sets
  \<open>Content-Type\<close> to the type the sniffer returned for the bytes and
  \<open>Cache-Control\<close> to \<open>no-store\<close>, and passes the stored bytes, as they
  are, to \<open>Write\<close>: they are the body unless the connection refuses the
  write, which is logged.
\<close>

theorem imageHandler_response:
  assumes "Query r ''messageId'' = Some (messageID # rest)"
  shows "((d image_payload messageID = Inl err \<or> d image_payload messageID = Inr []) \<longrightarrow>
            writer_of (imageHandler_ServeHTTP env d w r) = Some w)
         \<and> (d image_payload messageID = Inr img \<and> img \<noteq> [] \<longrightarrow>
              response_header ''Content-Type'' (imageHandler_ServeHTTP env d w r)
                = Some [fst (images_ImageMime env img)]
              \<and> response_header ''Cache-Control'' (imageHandler_ServeHTTP env d w r)
                = Some [''no-store'']
              \<and> map_option body (writer_of (imageHandler_ServeHTTP env d w r))
                = Some (if Write_err w = None then body w @ img else body w)
              \<and> imageHandler_ServeHTTP env d w r =
                  Return (w\<lparr>Header := (Header w)
                               (''Content-Type'' \<mapsto> [fst (images_ImageMime env img)],
                                ''Cache-Control'' \<mapsto> [''no-store'']),
                             body := (if Write_err w = None then body w @ img else body w)\<rparr>,
                          (if snd (images_ImageMime env img) \<noteq> None
                           then [''failed to get mime''] else [])
                          @ (if Write_err w \<noteq> None then [''failed to write image''] else [])))"
proof (intro conjI impI)
  assume "d image_payload messageID = Inl err \<or> d image_payload messageID = Inr []"
  with assms show "writer_of (imageHandler_ServeHTTP env d w r) = Some w"
    by (auto simp: imageHandler_not_found imageHandler_empty writer_of_def)
next
  assume a: "d image_payload messageID = Inr img \<and> img \<noteq> []"
  with assms have e: "imageHandler_ServeHTTP env d w r =
                  Return (w\<lparr>Header := (Header w)
                               (''Content-Type'' \<mapsto> [fst (images_ImageMime env img)],
                                ''Cache-Control'' \<mapsto> [''no-store'']),
                             body := (if Write_err w = None then body w @ img else body w)\<rparr>,
                          (if snd (images_ImageMime env img) \<noteq> None
                           then [''failed to get mime''] else [])
                          @ (if Write_err w \<noteq> None then [''failed to write image''] else []))"
    by (simp add: imageHandler_found)
  then show "imageHandler_ServeHTTP env d w r =
                  Return (w\<lparr>Header := (Header w)
                               (''Content-Type'' \<mapsto> [fst (images_ImageMime env img)],
                                ''Cache-Control'' \<mapsto> [''no-store'']),
                             body := (if Write_err w = None then body w @ img else body w)\<rparr>,
                          (if snd (images_ImageMime env img) \<noteq> None
                           then [''failed to get mime''] else [])
                          @ (if Write_err w \<noteq> None then [''failed to write image''] else []))" .
  from e show "response_header ''Content-Type'' (imageHandler_ServeHTTP env d w r)
                = Some [fst (images_ImageMime env img)]"
    by (simp add: response_header_def)
  from e show "response_header ''Cache-Control'' (imageHandler_ServeHTTP env d w r)
                = Some [''no-store'']"
    by (simp add: response_header_def)
  from e show "map_option body (writer_of (imageHandler_ServeHTTP env d w r))
                = Some (if Write_err w = None then body w @ img else body w)"
    by (simp add: writer_of_def)
qed

text \<open>
  Message \<open>m1\<close> holds a GIF: it is served as \<open>image/gif\<close>, its bytes
  the body. Message \<open>m2\<close> holds no bytes and \<open>m9\<close> does not exist:
  nothing is written.
\<close>

theorem imageHandler_response_witness:
  "response_header ''Content-Type''
     (imageHandler_ServeHTTP sample_http_env sample_db empty_writer
        (request_with ''messageId'' [''m1''])) = Some [''image/gif'']
   \<and> response_header ''Cache-Control''
     (imageHandler_ServeHTTP sample_http_env sample_db empty_writer
        (request_with ''messageId'' [''m1''])) = Some [''no-store'']
   \<and> map_option body (writer_of
     (imageHandler_ServeHTTP sample_http_env sample_db empty_writer
        (request_with ''messageId'' [''m1'']))) = Some ''GIF89a''
   \<and> writer_of (imageHandler_ServeHTTP sample_http_env sample_db empty_writer
        (request_with ''messageId'' [''m2''])) = Some empty_writer
   \<and> writer_of (imageHandler_ServeHTTP sample_http_env sample_db empty_writer
        (request_with ''messageId'' [''m9''])) = Some empty_writer"
proof -
  have q1: "Query (request_with ''messageId'' [''m1'']) ''messageId'' = Some (''m1'' # [])"
    by (simp add: request_with_def)
  have q2: "Query (request_with ''messageId'' [''m2'']) ''messageId'' = Some (''m2'' # [])"
    by (simp add: request_with_def)
  have q9: "Query (request_with ''messageId'' [''m9'']) ''messageId'' = Some (''m9'' # [])"
    by (simp add: request_with_def)
  have h1: "sample_db image_payload ''m1'' = Inr ''GIF89a'' \<and> ''GIF89a'' \<noteq> []"
    by (simp add: sample_db_def)
  have h2: "sample_db image_payload ''m2'' = Inl ErrNoRows \<or> sample_db image_payload ''m2'' = Inr []"
    by (simp add: sample_db_def)
  have h9: "sample_db image_payload ''m9'' = Inl ErrNoRows \<or> sample_db image_payload ''m9'' = Inr []"
    by (simp add: sample_db_def)
  have m: "fst (images_ImageMime sample_http_env ''GIF89a'') = ''image/gif''"
    by (simp add: sample_http_env_def)
  have b: "(if Write_err empty_writer = None then body empty_writer @ ''GIF89a''
            else body empty_writer) = ''GIF89a''"
    by (simp add: empty_writer_def)
  note A = imageHandler_response
    [OF q1, where d = sample_db and img = "''GIF89a''" and env = sample_http_env
       and w = empty_writer, THEN conjunct2, THEN mp, OF h1, unfolded m b]
  note B = imageHandler_response
    [OF q2, where d = sample_db and err = ErrNoRows and env = sample_http_env
       and w = empty_writer, THEN conjunct1, THEN mp, OF h2]
  note C = imageHandler_response
    [OF q9, where d = sample_db and err = ErrNoRows and env = sample_http_env
       and w = empty_writer, THEN conjunct1, THEN mp, OF h9]
  from A B C show ?thesis by blast
qed

text \<open>
  C7, as stated, fails in its first case: when generation fails completely
  (an error and no bytes) it is not true that nothing is written. The
  handler has no return on that error: it sets the three headers all the
  same, and the response is no longer the untouched one.
\<close>

theorem identicon_failure_counterexample:
  "identicon_Generate sample_http_env ''bad'' = ([], Some (Err ''png: encode failed''))
   \<and> response_header ''Content-Type''
        (identiconHandler_ServeHTTP sample_http_env empty_writer
           (request_with ''publicKey'' [''bad''])) = Some [''image/png'']
   \<and> response_header ''Cache-Control''
        (identiconHandler_ServeHTTP sample_http_env empty_writer
           (request_with ''publicKey'' [''bad''])) = Some [''max-age:290304000, public'']
   \<and> response_header ''Expires''
        (identiconHandler_ServeHTTP sample_http_env empty_writer
           (request_with ''publicKey'' [''bad''])) = Some [''Tue, 01 Jan 2030 00:00:00 GMT'']
   \<and> Header empty_writer ''Content-Type'' = None
   \<and> writer_of (identiconHandler_ServeHTTP sample_http_env empty_writer
           (request_with ''publicKey'' [''bad''])) \<noteq> Some empty_writer"
proof -
  have q: "Query (request_with ''publicKey'' [''bad'']) ''publicKey'' = Some (''bad'' # [])"
    by (simp add: request_with_def)
  have g: "identicon_Generate sample_http_env ''bad'' = ([], Some (Err ''png: encode failed''))"
    by (simp add: sample_http_env_def)
  have f: "Format sample_http_env (AddDate sample_http_env (now sample_http_env) 60 0 0)
             http_TimeFormat = ''Tue, 01 Jan 2030 00:00:00 GMT''"
    by (simp add: sample_http_env_def)
  note e = identiconHandler_param [OF q, of sample_http_env empty_writer, unfolded g f]
  have 1: "response_header ''Content-Type''
        (identiconHandler_ServeHTTP sample_http_env empty_writer
           (request_with ''publicKey'' [''bad''])) = Some [''image/png'']"
    by (simp add: e response_header_def)
  have 2: "response_header ''Cache-Control''
        (identiconHandler_ServeHTTP sample_http_env empty_writer
           (request_with ''publicKey'' [''bad''])) = Some [''max-age:290304000, public'']"
    by (simp add: e response_header_def)
  have 3: "response_header ''Expires''
        (identiconHandler_ServeHTTP sample_http_env empty_writer
           (request_with ''publicKey'' [''bad''])) = Some [''Tue, 01 Jan 2030 00:00:00 GMT'']"
    by (simp add: e response_header_def)
  have 4: "Header empty_writer ''Content-Type'' = None"
    by (simp add: empty_writer_def)
  have 5: "writer_of (identiconHandler_ServeHTTP sample_http_env empty_writer
           (request_with ''publicKey'' [''bad''])) \<noteq> Some empty_writer"
  proof
    assume "writer_of (identiconHandler_ServeHTTP sample_http_env empty_writer
           (request_with ''publicKey'' [''bad''])) = Some empty_writer"
    then have "response_header ''Content-Type''
        (identiconHandler_ServeHTTP sample_http_env empty_writer
           (request_with ''publicKey'' [''bad''])) = Header empty_writer ''Content-Type''"
      by (auto simp: writer_of_def response_header_def split: result.splits prod.splits)
    with 1 4 show False by simp
  qed
  from g 1 2 3 4 5 show ?thesis by blast
qed

text \<open>
  C7, amended. For a request to \<open>/messages/identicons\<close> with a
  \<open>publicKey\<close>, a failure of the generator is logged and is not fatal to
  the response: whether it failed completely or in part, or not at all, the
  handler sets \<open>Content-Type: image/png\<close>, the far-future
  \<open>Cache-Control\<close> and an \<open>Expires\<close> header 60 years ahead, and passes
  whatever bytes the generator produced to \<open>Write\<close>. On a complete failure
  there are no bytes, so the body stays as it was, but the headers are set.
\<close>

theorem identiconHandler_headers_always:
  assumes "Query r ''publicKey'' = Some (pk # rest)"
    and "identicon_Generate env pk = (img, err)"
  shows "response_header ''Content-Type'' (identiconHandler_ServeHTTP env w r) = Some [''image/png'']
         \<and> response_header ''Cache-Control'' (identiconHandler_ServeHTTP env w r)
              = Some [''max-age:290304000, public'']
         \<and> response_header ''Expires'' (identiconHandler_ServeHTTP env w r)
              = Some [Format env (AddDate env (now env) 60 0 0) http_TimeFormat]
         \<and> map_option body (writer_of (identiconHandler_ServeHTTP env w r))
              = Some (if Write_err w = None then body w @ img else body w)
         \<and> (img = [] \<longrightarrow>
              map_option body (writer_of (identiconHandler_ServeHTTP env w r)) = Some (body w))
         \<and> map_option snd (returned (identiconHandler_ServeHTTP env w r))
              = Some ((if err \<noteq> None then [''could not generate identicon''] else [])
                      @ (if Write_err w \<noteq> None then [''failed to write image''] else []))"
proof -
  note e = identiconHandler_param [OF assms(1), of env w, unfolded assms(2) fst_conv snd_conv]
  show ?thesis
    by (simp add: e response_header_def writer_of_def returned_def)
qed

text \<open>
  Key \<open>bad\<close>: the generator fails with no bytes; headers set, body empty.
  Key \<open>half\<close>: it fails after two bytes; headers set, the two bytes sent.
\<close>

theorem identiconHandler_headers_always_witness:
  "response_header ''Content-Type''
     (identiconHandler_ServeHTTP sample_http_env empty_writer
        (request_with ''publicKey'' [''bad''])) = Some [''image/png'']
   \<and> map_option body (writer_of
     (identiconHandler_ServeHTTP sample_http_env empty_writer
        (request_with ''publicKey'' [''bad'']))) = Some []
   \<and> response_header ''Content-Type''
     (identiconHandler_ServeHTTP sample_http_env empty_writer
        (request_with ''publicKey'' [''half''])) = Some [''image/png'']
   \<and> map_option body (writer_of
     (identiconHandler_ServeHTTP sample_http_env empty_writer
        (request_with ''publicKey'' [''half'']))) = Some ''PN''"
proof -
  have q1: "Query (request_with ''publicKey'' [''bad'']) ''publicKey'' = Some (''bad'' # [])"
    by (simp add: request_with_def)
  have g1: "identicon_Generate sample_http_env ''bad'' = ([], Some (Err ''png: encode failed''))"
    by (simp add: sample_http_env_def)
  have q2: "Query (request_with ''publicKey'' [''half'']) ''publicKey'' = Some (''half'' # [])"
    by (simp add: request_with_def)
  have g2: "identicon_Generate sample_http_env ''half'' = (''PN'', Some (Err ''png: short write''))"
    by (simp add: sample_http_env_def)
  have b: "(if Write_err empty_writer = None then body empty_writer @ ''PN''
            else body empty_writer) = ''PN''"
    by (simp add: empty_writer_def)
  have b': "body empty_writer = []"
    by (simp add: empty_writer_def)
  note A = identiconHandler_headers_always [OF q1 g1, of empty_writer]
  note B = identiconHandler_headers_always [OF q2 g2, of empty_writer, unfolded b]
  have A5: "map_option body (writer_of
     (identiconHandler_ServeHTTP sample_http_env empty_writer
        (request_with ''publicKey'' [''bad'']))) = Some []"
    using A [THEN conjunct2, THEN conjunct2, THEN conjunct2, THEN conjunct2, THEN conjunct1]
    by (simp add: b')
  note A1 = A [THEN conjunct1]
  note B1 = B [THEN conjunct1]
  note B4 = B [THEN conjunct2, THEN conjunct2, THEN conjunct2, THEN conjunct1]
  from A1 A5 B1 B4 show ?thesis by (intro conjI)
qed

text \<open>
  C8. A request without its required parameter, or with the parameter and
  no value, makes each of the three handlers return with the response
  untouched (no header, no body) and one line logged. No handler panics, on
  any request: the index \<open>[0]\<close> is only taken on a non-empty list.
\<close>

theorem missing_parameter_no_output:
  "(Query r ''publicKey'' = None \<or> Query r ''publicKey'' = Some [] \<longrightarrow>
      identiconHandler_ServeHTTP env w r = Return (w, [''no publicKey'']))
   \<and> (Query r ''messageId'' = None \<or> Query r ''messageId'' = Some [] \<longrightarrow>
        imageHandler_ServeHTTP env d w r = Return (w, [''no messageID''])
        \<and> audioHandler_ServeHTTP d w r = Return (w, [''no messageID'']))
   \<and> identiconHandler_ServeHTTP env w r \<noteq> Panic m
   \<and> imageHandler_ServeHTTP env d w r \<noteq> Panic m
   \<and> audioHandler_ServeHTTP d w r \<noteq> Panic m"
  by (intro conjI impI identiconHandler_no_param imageHandler_no_param audioHandler_no_param
      identiconHandler_no_panic imageHandler_no_panic audioHandler_no_panic)

text \<open>A request with no query at all, and one with \<open>messageId\<close> and no value.\<close>

theorem missing_parameter_no_output_witness:
  "identiconHandler_ServeHTTP sample_http_env empty_writer empty_request
     = Return (empty_writer, [''no publicKey''])
   \<and> imageHandler_ServeHTTP sample_http_env sample_db empty_writer (request_with ''messageId'' [])
     = Return (empty_writer, [''no messageID''])
   \<and> audioHandler_ServeHTTP sample_db empty_writer (request_with ''messageId'' [])
     = Return (empty_writer, [''no messageID''])"
proof -
  have h1: "Query empty_request ''publicKey'' = None \<or> Query empty_request ''publicKey'' = Some []"
    by (simp add: empty_request_def)
  have h2: "Query (request_with ''messageId'' []) ''messageId'' = None
            \<or> Query (request_with ''messageId'' []) ''messageId'' = Some []"
    by (simp add: request_with_def)
  note A = missing_parameter_no_output
    [where r = empty_request and env = sample_http_env and w = empty_writer,
     THEN conjunct1, THEN mp, OF h1]
  note B = missing_parameter_no_output
    [where r = "request_with ''messageId'' []" and env = sample_http_env and w = empty_writer
       and d = sample_db, THEN conjunct2, THEN conjunct1, THEN mp, OF h2]
  from A B show ?thesis by blast
qed

section \<open>Claims about the listener and the lifecycle\<close>






text \<open>
  C9. \<open>ToBackground\<close> on a server whose \<open>run\<close> flag is false, and
  \<open>ToForeground\<close> on a server whose \<open>run\<close> flag is true, change nothing:
  the whole process state is the same after the call (port, flag and
  \<open>http.Server\<close> pointer, no goroutine started, so no new listener, and
  nothing logged).
\<close>

theorem lifecycle_noops:
  "(\<not> run (srv w) \<longrightarrow>
      ToBackground e w = w \<and> step (Call_ToBackground e) w = Return w)
   \<and> (run (srv w) \<longrightarrow> ToForeground w = w \<and> step Call_ToForeground w = Return w)"
  by (simp add: ToBackground_noop ToForeground_noop)

text \<open>The new sample server is not running; the started one is.\<close>

theorem lifecycle_noops_witness:
  "\<not> run (srv (new_world sample_server))
   \<and> ToBackground None (new_world sample_server) = new_world sample_server
   \<and> run (srv running_world)
   \<and> ToForeground running_world = running_world
   \<and> step Call_ToForeground running_world = Return running_world"
proof -
  have a: "\<not> run (srv (new_world sample_server))"
    by (simp add: new_world_def sample_server_def)
  have b: "run (srv running_world)" by (simp add: running_world_def)
  note A = lifecycle_noops [where w = "new_world sample_server" and e = None,
      THEN conjunct1, THEN mp, OF a]
  note B = lifecycle_noops [where w = running_world, THEN conjunct2, THEN mp, OF b]
  from a b A B show ?thesis by blast
qed

text \<open>
  C10. \<open>Start\<close> returns nil in every state, also with a nil certificate,
  when the server runs already and when called again. So the branches
  that guard its result are dead: \<open>ToForeground\<close> is \<open>Start\<close> or
  nothing, the bind-failure path and the serve-failure path of
  \<open>listenAndServe\<close> end in the state \<open>Start\<close> returns, and along any
  sequence of events neither "server start failed, giving up" nor "server
  start failed during foreground transition" is ever logged.
\<close>

theorem Start_returns_nil:
  "snd (Start w) = None
   \<and> snd (Start (fst (Start w))) = None
   \<and> ToForeground w =
       (if \<not> run (srv w) \<and> server (srv w) \<noteq> None then fst (Start w) else w)
   \<and> (cert (srv w) \<noteq> None \<and> tls_Listen net (Port (srv w)) = Inl err \<longrightarrow>
        listenAndServe_listen net w =
          Return (fst (Start (w\<lparr>logs := logs w @ [''failed to start server, retrying''],
                                 srv := (srv w)\<lparr>Port := 0\<rparr>\<rparr>))))
   \<and> (e \<noteq> ErrServerClosed \<longrightarrow>
        listenAndServe_served e w =
          fst (Start (w\<lparr>logs := logs w @ [''server failed unexpectedly, restarting'']\<rparr>)))
   \<and> (exec evs w = Return w'
        \<and> (m = ''server start failed, giving up''
           \<or> m = ''server start failed during foreground transition'')
        \<and> m \<notin> set (logs w) \<longrightarrow> m \<notin> set (logs w'))"
proof (intro conjI impI)
  show "snd (Start w) = None" by (rule Start_nil)
  show "snd (Start (fst (Start w))) = None" by (rule Start_nil)
  show "ToForeground w =
       (if \<not> run (srv w) \<and> server (srv w) \<noteq> None then fst (Start w) else w)"
    by (rule ToForeground_eq)
next
  assume "cert (srv w) \<noteq> None \<and> tls_Listen net (Port (srv w)) = Inl err"
  then show "listenAndServe_listen net w =
          Return (fst (Start (w\<lparr>logs := logs w @ [''failed to start server, retrying''],
                                 srv := (srv w)\<lparr>Port := 0\<rparr>\<rparr>)))"
    by (intro listen_fail) simp_all
next
  assume "e \<noteq> ErrServerClosed"
  then show "listenAndServe_served e w =
          fst (Start (w\<lparr>logs := logs w @ [''server failed unexpectedly, restarting'']\<rparr>))"
    by (simp add: served_eq)
next
  assume a: "exec evs w = Return w'
        \<and> (m = ''server start failed, giving up''
           \<or> m = ''server start failed during foreground transition'')
        \<and> m \<notin> set (logs w)"
  then have 1: "exec evs w = Return w'"
    and 2: "m = ''server start failed, giving up''
           \<or> m = ''server start failed during foreground transition''"
    and 3: "m \<notin> set (logs w)" by simp_all
  from exec_logs [OF 2 1 3] show "m \<notin> set (logs w')" .
qed

text \<open>
  \<open>Start\<close> on a server with no certificate, and on the running sample
  server; the serve failure of the running server; the failed bind and the
  next bind of the restarted one, after which the log holds one line.
\<close>

theorem Start_returns_nil_witness:
  "snd (Start (new_world (sample_server\<lparr>cert := None\<rparr>))) = None
   \<and> snd (Start running_world) = None
   \<and> listenAndServe_served (Err ''EOF'') running_world =
       fst (Start (running_world
                     \<lparr>logs := logs running_world @ [''server failed unexpectedly, restarting'']\<rparr>))
   \<and> map_option logs (returned
        (exec [Go_listen (sample_network [] (Some 50000)),
               Go_listen (sample_network [] (Some 50000))] restarting_world))
       = Some [''failed to start server, retrying'']
   \<and> ''server start failed, giving up'' \<notin> set [''failed to start server, retrying'']"
proof -
  let ?N = "sample_network [] (Some 50000)"
  let ?w' = "restarting_world
               \<lparr>pending := 0,
                logs := [''failed to start server, retrying''],
                srv := (srv restarting_world)\<lparr>Port := 50000, run := True, server := Some 2\<rparr>,
                heap := heap restarting_world @ [\<lparr>Handler = sample_routes, inShutdown = False\<rparr>],
                serving := [(2, 50000)]\<rparr>"
  note A = Start_returns_nil [where w = "new_world (sample_server\<lparr>cert := None\<rparr>)",
      THEN conjunct1]
  note B = Start_returns_nil [where w = running_world, THEN conjunct1]
  have n: "Err ''EOF'' \<noteq> ErrServerClosed" by simp
  note C = Start_returns_nil [where w = running_world and e = "Err ''EOF''",
      THEN conjunct2, THEN conjunct2, THEN conjunct2, THEN conjunct2, THEN conjunct1,
      THEN mp, OF n]
  have x: "exec [Go_listen ?N, Go_listen ?N] restarting_world = Return ?w'"
    by (simp add: Start_result listenAndServe_listen_def tls_Listen_def
        restarting_world_def sample_network_def sample_routes_def Let_def)
  have h: "exec [Go_listen ?N, Go_listen ?N] restarting_world = Return ?w'
           \<and> (''server start failed, giving up'' = ''server start failed, giving up''
              \<or> ''server start failed, giving up''
                 = ''server start failed during foreground transition'')
           \<and> ''server start failed, giving up'' \<notin> set (logs restarting_world)"
    using x by (simp add: restarting_world_def)
  have l: "logs ?w' = [''failed to start server, retrying'']" by simp
  note D = Start_returns_nil
    [where w = restarting_world and evs = "[Go_listen ?N, Go_listen ?N]" and w' = ?w'
       and m = "''server start failed, giving up''",
     THEN conjunct2, THEN conjunct2, THEN conjunct2, THEN conjunct2, THEN conjunct2,
     THEN mp, OF h, unfolded l]
  have E: "map_option logs (returned (exec [Go_listen ?N, Go_listen ?N] restarting_world))
             = Some [''failed to start server, retrying'']"
    by (simp only: x returned_def result.case option.map l)
  from A B C D E show ?thesis by blast
qed

end
